theory Spec2Isabelle
  imports Complex_Main
begin

section \<open>Board geometry\<close>

text \<open>
  \<^verbatim>\<open>getGroup(r, c, gHeight, gWidth, dimensions)\<close> of \<^verbatim>\<open>src/app/sudoku.js\<close>.
  Rows, columns and sizes are array indices and lengths (naturals). The source divides
  with \<^verbatim>\<open>/\<close> on JavaScript numbers, so \<^verbatim>\<open>numCols\<close> is not rounded: the model
  computes in exact rationals, which coincide with the doubles of the source whenever
  the intermediate values are integers. A group height or width of 0 makes the source
  return \<^verbatim>\<open>Infinity\<close> or \<^verbatim>\<open>NaN\<close>; the model returns \<open>None\<close> there.
\<close>

definition getGroup :: "nat \<Rightarrow> nat \<Rightarrow> nat \<Rightarrow> nat \<Rightarrow> nat \<times> nat \<Rightarrow> rat option" where
  "getGroup r c gHeight gWidth dimensions =
     (case dimensions of (height, width) \<Rightarrow>
        if gHeight = 0 \<or> gWidth = 0 then None
        else
          let numCols = (of_nat width :: rat) / of_nat gWidth;
              numRows = (of_nat height :: rat) / of_nat gHeight
          in Some (of_int \<lfloor>(of_nat c :: rat) / of_nat gWidth\<rfloor>
                   + numCols * of_int \<lfloor>(of_nat r :: rat) / of_nat gHeight\<rfloor>))"

section \<open>Data model of the editor\<close>

text \<open>
  Every failure of the source is a JavaScript \<^verbatim>\<open>TypeError\<close> (a property read from
  \<^verbatim>\<open>undefined\<close>). A function of the model that can throw returns \<open>js_error + 'a\<close>.
  When the source throws, the model returns \<open>Inl TypeError\<close> and says nothing about the
  objects the handler had already mutated.
\<close>

datatype js_error = TypeError

definition bindE :: "js_error + 'a \<Rightarrow> ('a \<Rightarrow> js_error + 'b) \<Rightarrow> js_error + 'b" where
  "bindE m f = (case m of Inl e \<Rightarrow> Inl e | Inr x \<Rightarrow> f x)"

text \<open>
  Cells are JavaScript objects that the handlers mutate in place and that the undo
  records share with the live board. They live in a store: \<open>addr\<close> is an object
  identity, \<open>heap\<close> maps it to the object's fields. A board (\<^verbatim>\<open>config.cells\<close>) is an
  array of rows of cell references; the rows themselves are never mutated after they
  are built. \<^verbatim>\<open>cell.error\<close> is \<^verbatim>\<open>undefined\<close> or \<^verbatim>\<open>true\<close>: a boolean.
\<close>

type_synonym addr = nat

record cell =
  val :: string
  guess :: int
  group :: int
  color :: "string option"
  error :: bool

type_synonym heap = "addr \<Rightarrow> cell"

record guessStyle =
  guessColor :: string
  isSmall :: bool
  editable :: bool

record groupStyle =
  groupColor :: string

record config =
  version :: rat
  dimensions :: "nat \<times> nat"
  cells :: "addr list list"
  groups :: "groupStyle list"
  guesses :: "guessStyle list"
  type :: string
  elapsed :: nat

text \<open>
  The two kinds of undo record: \<^verbatim>\<open>{type: UNDO.FULL, prevCells, newCells}\<close> and
  \<^verbatim>\<open>{type: UNDO.DIFF, coords, prevVal, newVal}\<close>.
\<close>

datatype undo_record =
    Full "addr list list" "addr list list"
  | Diff "nat \<times> nat" string string

text \<open>
  The state of the \<^verbatim>\<open>Sudoku\<close> component: the React state variables the modelled
  handlers read and set, the store of cell objects with its next free identity, and the
  congratulation alerts raised so far (each with the elapsed seconds it reports).
  A handler reads the state of the render it was created in and its \<^verbatim>\<open>set...\<close> calls
  take effect together when it returns; where two calls set the same variable the
  last one wins.
\<close>

record app =
  config :: config
  heap :: heap
  nextAddr :: addr
  currGuess :: int
  undoHistory :: "undo_record list"
  undoIndex :: int
  timerStarted :: bool
  validationState :: "string option"
  alerts :: "nat list"

subsection \<open>JavaScript arrays\<close>

text \<open>\<^verbatim>\<open>xs[i]\<close>: \<open>None\<close> is \<^verbatim>\<open>undefined\<close>.\<close>

definition elemAt :: "'a list \<Rightarrow> nat \<Rightarrow> 'a option" where
  "elemAt xs i = (if i < length xs then Some (xs ! i) else None)"

definition elemAtInt :: "'a list \<Rightarrow> int \<Rightarrow> 'a option" where
  "elemAtInt xs i = (if 0 \<le> i \<and> i < int (length xs) then Some (xs ! nat i) else None)"

text \<open>\<^verbatim>\<open>xs.slice(s, e)\<close> for non-negative \<open>s\<close> and \<open>e\<close>.\<close>

definition slice :: "'a list \<Rightarrow> nat \<Rightarrow> nat \<Rightarrow> 'a list" where
  "slice xs s e = take (e - s) (drop s xs)"

text \<open>\<^verbatim>\<open>xs.slice(0, e)\<close> for any integer \<open>e\<close>: a negative end counts from the end.\<close>

definition sliceTo :: "'a list \<Rightarrow> int \<Rightarrow> 'a list" where
  "sliceTo xs e = take (nat (if e < 0 then int (length xs) + e else e)) xs"

text \<open>\<^verbatim>\<open>Object.entries(xs)\<close> of an array, the keys read back with \<^verbatim>\<open>Number\<close>.\<close>

definition entries :: "'a list \<Rightarrow> (nat \<times> 'a) list" where
  "entries xs = zip [0..<length xs] xs"

text \<open>\<^verbatim>\<open>config.cells[r][c]\<close> where the source goes on to read a field of it.\<close>

definition cellAt :: "addr list list \<Rightarrow> nat \<Rightarrow> nat \<Rightarrow> js_error + addr" where
  "cellAt cs r c =
     (case elemAt cs r of None \<Rightarrow> Inl TypeError
      | Some row \<Rightarrow> (case elemAt row c of None \<Rightarrow> Inl TypeError | Some a \<Rightarrow> Inr a))"

section \<open>Validation engine\<close>

text \<open>The values of \<^verbatim>\<open>SUDOKU_TYPES\<close> and of \<^verbatim>\<open>VALIDATION_MSGS\<close>.\<close>

definition TYPE_12x12 :: string where "TYPE_12x12 = ''12x12''"
definition TYPE_16x16 :: string where "TYPE_16x16 = ''16x16''"
definition TYPE_Samurai :: string where "TYPE_Samurai = ''samurai''"
definition TYPE_Squiggly :: string where "TYPE_Squiggly = ''squiggly''"
definition TYPE_X :: string where "TYPE_X = ''x''"
definition TYPE_Default :: string where "TYPE_Default = ''default''"
definition TYPE_Other :: string where "TYPE_Other = ''other''"

definition MSG_valid :: string where
  "MSG_valid = ''No errors detected since last validation.''"
definition MSG_error :: string where
  "MSG_error = ''An error was detected on the sudoku board.''"

text \<open>
  \<^verbatim>\<open>isSmallGuess(cell)\<close>: \<^verbatim>\<open>cell.guess !== -1 && guesses[cell.guess].isSmall\<close>. A guess
  index other than -1 that is no index of \<^verbatim>\<open>guesses\<close> throws.
\<close>

definition isSmallGuess :: "guessStyle list \<Rightarrow> cell \<Rightarrow> js_error + bool" where
  "isSmallGuess gs cell =
     (if guess cell \<noteq> - 1 then
        (case elemAtInt gs (guess cell) of
           None \<Rightarrow> Inl TypeError
         | Some g \<Rightarrow> Inr (isSmall g))
      else Inr False)"

text \<open>\<^verbatim>\<open>cellList.map(cell => isSmallGuess(cell) ? '' : cell.val)\<close>.\<close>

fun displayList :: "guessStyle list \<Rightarrow> cell list \<Rightarrow> js_error + string list" where
  "displayList gs [] = Inr []"
| "displayList gs (cell # rest) =
     (case isSmallGuess gs cell of
        Inl e \<Rightarrow> Inl e
      | Inr small \<Rightarrow>
          (case displayList gs rest of
             Inl e \<Rightarrow> Inl e
           | Inr vs \<Rightarrow> Inr ((if small then [] else val cell) # vs)))"

text \<open>
  \<^verbatim>\<open>list.map((v, i) => v !== '' ? v : i)\<close>: a string stays, an empty string becomes
  its index (a number, never equal to a string in a \<^verbatim>\<open>Set\<close>).
\<close>

definition setKeys :: "string list \<Rightarrow> (string + nat) list" where
  "setKeys list = map (\<lambda>(i, v). if v \<noteq> [] then Inl v else Inr i) (entries list)"

definition markErrors :: "addr list \<Rightarrow> heap \<Rightarrow> heap" where
  "markErrors cellList h = foldl (\<lambda>h a. h(a := (h a)\<lparr>error := True\<rparr>)) h cellList"

text \<open>
  \<^verbatim>\<open>allUnique(cellList)\<close>: the size of the \<^verbatim>\<open>Set\<close> is the number of distinct keys.
  The list is mapped before any flag is written, so a throw leaves the flags alone.
\<close>

definition allUnique :: "guessStyle list \<Rightarrow> addr list \<Rightarrow> heap \<Rightarrow> js_error + (bool \<times> heap)" where
  "allUnique gs cellList h =
     (case displayList gs (map h cellList) of
        Inl e \<Rightarrow> Inl e
      | Inr list \<Rightarrow>
          let isUnique = (length (remdups (setKeys list)) = length list)
          in Inr (isUnique, if isUnique then h else markErrors cellList h))"

text \<open>
  \<^verbatim>\<open>allUnique\<close> on an array that may hold \<^verbatim>\<open>undefined\<close> (a column of a ragged board,
  a diagonal): \<^verbatim>\<open>isSmallGuess(undefined)\<close> throws while the list is mapped.
\<close>

definition allUniqueHoles ::
  "guessStyle list \<Rightarrow> addr option list \<Rightarrow> heap \<Rightarrow> js_error + (bool \<times> heap)" where
  "allUniqueHoles gs cellList h =
     (case those cellList of None \<Rightarrow> Inl TypeError | Some as \<Rightarrow> allUnique gs as h)"

text \<open>
  \<^verbatim>\<open>row.find(cell => cell.val === '' || isSmallGuess(cell)) === undefined\<close>.
\<close>

fun rowFilled :: "guessStyle list \<Rightarrow> cell list \<Rightarrow> js_error + bool" where
  "rowFilled gs [] = Inr True"
| "rowFilled gs (cell # rest) =
     (if val cell = [] then Inr False
      else (case isSmallGuess gs cell of
              Inl e \<Rightarrow> Inl e
            | Inr small \<Rightarrow> if small then Inr False else rowFilled gs rest))"

text \<open>The parameter \<^verbatim>\<open>ops\<close> of \<^verbatim>\<open>defaultValidate\<close>; \<open>groupDims\<close> is \<^verbatim>\<open>ops.groups\<close>.\<close>

record ops =
  firstSquare :: "nat \<times> nat"
  sideLength :: nat
  groupDims :: "(nat \<times> nat) option"

text \<open>The loop over the rows of \<^verbatim>\<open>rowSlice\<close>.\<close>

fun validateRows ::
  "guessStyle list \<Rightarrow> nat \<Rightarrow> nat \<Rightarrow> addr list list \<Rightarrow> bool \<times> bool \<times> heap
     \<Rightarrow> js_error + (bool \<times> bool \<times> heap)" where
  "validateRows gs firstCol sl [] st = Inr st"
| "validateRows gs firstCol sl (fullRow # rest) (isValid, isFilled, h) =
     (let row = slice fullRow firstCol (firstCol + sl) in
      case allUnique gs row h of
        Inl e \<Rightarrow> Inl e
      | Inr (u, h') \<Rightarrow>
          (case (if isFilled then rowFilled gs (map h' row) else Inr False) of
             Inl e \<Rightarrow> Inl e
           | Inr f \<Rightarrow> validateRows gs firstCol sl rest (u \<and> isValid, f, h')))"

text \<open>
  The loops \<^verbatim>\<open>isValid = allUnique(p) && isValid\<close> over the columns and over the
  groups: \<open>chk\<close> is \<open>allUniqueHoles gs\<close> or \<open>allUnique gs\<close>.
\<close>

fun checkEach ::
  "('p \<Rightarrow> heap \<Rightarrow> js_error + (bool \<times> heap)) \<Rightarrow> 'p list \<Rightarrow> bool \<times> heap
     \<Rightarrow> js_error + (bool \<times> heap)" where
  "checkEach chk [] st = Inr st"
| "checkEach chk (p # ps) (isValid, h) =
     (case chk p h of
        Inl e \<Rightarrow> Inl e
      | Inr (u, h') \<Rightarrow> checkEach chk ps (u \<and> isValid, h'))"

text \<open>\<^verbatim>\<open>rowSlice.map(row => row[c])\<close>.\<close>

definition column :: "addr list list \<Rightarrow> nat \<Rightarrow> addr option list" where
  "column rowSlice c = map (\<lambda>row. elemAt row c) rowSlice"

text \<open>\<^verbatim>\<open>cellGroups[g].push(cell)\<close>: throws when \<^verbatim>\<open>cellGroups[g]\<close> is \<^verbatim>\<open>undefined\<close>.\<close>

definition pushAt :: "addr list list \<Rightarrow> int \<Rightarrow> addr \<Rightarrow> js_error + addr list list" where
  "pushAt cellGroups g cell =
     (case elemAtInt cellGroups g of
        None \<Rightarrow> Inl TypeError
      | Some grp \<Rightarrow> Inr (cellGroups[nat g := grp @ [cell]]))"

text \<open>
  Groups by the group dimensions. \<open>r\<close> and \<open>c\<close> are the indices inside the slice;
  \<^verbatim>\<open>Math.floor((Math.floor(r / groupHeight) * sideLength + c) / groupWidth)\<close> is an
  expression over naturals, so both floors are natural division.
\<close>

fun groupRow ::
  "nat \<Rightarrow> nat \<Rightarrow> nat \<Rightarrow> nat \<Rightarrow> (nat \<times> addr) list \<Rightarrow> addr list list
     \<Rightarrow> js_error + addr list list" where
  "groupRow groupHeight groupWidth sl r [] cellGroups = Inr cellGroups"
| "groupRow groupHeight groupWidth sl r ((c, cell) # rest) cellGroups =
     (let g = ((r div groupHeight) * sl + c) div groupWidth in
      case pushAt cellGroups (int g) cell of
        Inl e \<Rightarrow> Inl e
      | Inr cellGroups' \<Rightarrow> groupRow groupHeight groupWidth sl r rest cellGroups')"

fun groupRows ::
  "nat \<Rightarrow> nat \<Rightarrow> nat \<Rightarrow> nat \<Rightarrow> (nat \<times> addr list) list \<Rightarrow> addr list list
     \<Rightarrow> js_error + addr list list" where
  "groupRows groupHeight groupWidth sl firstCol [] cellGroups = Inr cellGroups"
| "groupRows groupHeight groupWidth sl firstCol ((r, fullRow) # rest) cellGroups =
     (let row = slice fullRow firstCol (firstCol + sl) in
      case groupRow groupHeight groupWidth sl r (entries row) cellGroups of
        Inl e \<Rightarrow> Inl e
      | Inr cellGroups' \<Rightarrow> groupRows groupHeight groupWidth sl firstCol rest cellGroups')"

text \<open>
  The number of turns of \<^verbatim>\<open>for (let i = 0; i < numGroups; i++)\<close>, where
  \<^verbatim>\<open>numGroups\<close> is a quotient of numbers. \<^verbatim>\<open>validate\<close> passes group dimensions 3 and 4
  only, never 0.
\<close>

definition numGroups :: "nat \<Rightarrow> nat \<Rightarrow> nat \<Rightarrow> nat \<Rightarrow> nat \<Rightarrow> nat" where
  "numGroups firstRow firstCol sl groupHeight groupWidth =
     nat \<lceil>((of_nat (firstRow + sl) :: rat) / of_nat groupHeight)
           * ((of_nat (firstCol + sl) :: rat) / of_nat groupWidth)\<rceil>"

text \<open>
  Groups by the cells' \<^verbatim>\<open>group\<close> field: the two nested loops visit every cell of the
  board in row order.
\<close>

fun groupByCell :: "heap \<Rightarrow> addr list \<Rightarrow> addr list list \<Rightarrow> js_error + addr list list" where
  "groupByCell h [] cellGroups = Inr cellGroups"
| "groupByCell h (cell # rest) cellGroups =
     (case pushAt cellGroups (group (h cell)) cell of
        Inl e \<Rightarrow> Inl e
      | Inr cellGroups' \<Rightarrow> groupByCell h rest cellGroups')"

definition defaultValidate :: "config \<Rightarrow> ops \<Rightarrow> heap \<Rightarrow> js_error + (bool \<times> bool \<times> heap)" where
  "defaultValidate newConfig ops h =
     (case firstSquare ops of (firstRow, firstCol) \<Rightarrow>
      let sl = sideLength ops;
          gs = guesses newConfig;
          rowSlice = slice (cells newConfig) firstRow (firstRow + sl)
      in
      (case validateRows gs firstCol sl rowSlice (True, True, h) of
        Inl e \<Rightarrow> Inl e
      | Inr (isValid1, isFilled, h1) \<Rightarrow>
      (case checkEach (allUniqueHoles gs)
              (map (column rowSlice) [firstCol..<firstCol + sl]) (isValid1, h1) of
        Inl e \<Rightarrow> Inl e
      | Inr (isValid2, h2) \<Rightarrow>
      (case (case groupDims ops of
               Some (groupHeight, groupWidth) \<Rightarrow>
                 groupRows groupHeight groupWidth sl firstCol (entries rowSlice)
                   (replicate (numGroups firstRow firstCol sl groupHeight groupWidth) [])
             | None \<Rightarrow>
                 groupByCell h2 (concat (cells newConfig))
                   (replicate (length (groups newConfig)) [])) of
        Inl e \<Rightarrow> Inl e
      | Inr cellGroups \<Rightarrow>
      (case checkEach (allUnique gs) cellGroups (isValid2, h2) of
        Inl e \<Rightarrow> Inl e
      | Inr (isValid3, h3) \<Rightarrow> Inr (isValid3, isFilled, h3))))))"

text \<open>The loop that clears \<^verbatim>\<open>cell.error\<close> on every cell of the board.\<close>

definition clearErrors :: "addr list list \<Rightarrow> heap \<Rightarrow> heap" where
  "clearErrors cs h = foldl (\<lambda>h a. h(a := (h a)\<lparr>error := False\<rparr>)) h (concat cs)"

text \<open>\<^verbatim>\<open>ops\<close> as \<^verbatim>\<open>validate\<close> sets it up from the type of the board.\<close>

definition opsFor :: "string \<Rightarrow> ops" where
  "opsFor t =
     (let ops = \<lparr>firstSquare = (0, 0), sideLength = 9, groupDims = Some (3, 3)\<rparr> in
      if t = TYPE_12x12 then ops\<lparr>sideLength := 12, groupDims := Some (3, 4)\<rparr>
      else if t = TYPE_16x16 then ops\<lparr>sideLength := 16, groupDims := Some (4, 4)\<rparr>
      else if t = TYPE_Squiggly then ops\<lparr>groupDims := None\<rparr>
      else ops)"

text \<open>
  The two diagonals of an X board: \<^verbatim>\<open>x1.push(cells[i][i]); x2.push(cells[i][8 - i])\<close>
  for the \<open>i\<close> of the list, in order. A missing row throws, a missing cell is pushed as
  \<^verbatim>\<open>undefined\<close>.
\<close>

fun diagonals ::
  "addr list list \<Rightarrow> nat list \<Rightarrow> js_error + (addr option list \<times> addr option list)" where
  "diagonals cs [] = Inr ([], [])"
| "diagonals cs (i # rest) =
     (case elemAt cs i of
        None \<Rightarrow> Inl TypeError
      | Some row \<Rightarrow>
          (case diagonals cs rest of
             Inl e \<Rightarrow> Inl e
           | Inr (x1, x2) \<Rightarrow> Inr (elemAt row i # x1, elemAt row (8 - i) # x2)))"

definition validateX :: "config \<Rightarrow> bool \<times> bool \<times> heap \<Rightarrow> js_error + (bool \<times> bool \<times> heap)" where
  "validateX newConfig st =
     (case st of (isValid, isFilled, h) \<Rightarrow>
      (case diagonals (cells newConfig) [0..<9] of
        Inl e \<Rightarrow> Inl e
      | Inr (x1, x2) \<Rightarrow>
      (case allUniqueHoles (guesses newConfig) x1 h of
        Inl e \<Rightarrow> Inl e
      | Inr (x1Valid, h1) \<Rightarrow>
      (case allUniqueHoles (guesses newConfig) x2 h1 of
        Inl e \<Rightarrow> Inl e
      | Inr (x2Valid, h2) \<Rightarrow> Inr (isValid \<and> x1Valid \<and> x2Valid, isFilled, h2)))))"

text \<open>The loop over the four other boards of a Samurai sudoku.\<close>

fun validateSamurai ::
  "config \<Rightarrow> ops \<Rightarrow> (nat \<times> nat) list \<Rightarrow> bool \<times> bool \<times> heap
     \<Rightarrow> js_error + (bool \<times> bool \<times> heap)" where
  "validateSamurai newConfig ops [] st = Inr st"
| "validateSamurai newConfig ops (initialCell # rest) (isValid, isFilled, h) =
     (case defaultValidate newConfig (ops\<lparr>firstSquare := initialCell\<rparr>) h of
        Inl e \<Rightarrow> Inl e
      | Inr (sectionValid, sectionFilled, h') \<Rightarrow>
          validateSamurai newConfig ops rest
            (sectionValid \<and> isValid, sectionFilled \<and> isFilled, h'))"

text \<open>
  The end of \<^verbatim>\<open>validate\<close>: the validation message, and for a valid and filled board
  the alert and \<^verbatim>\<open>setTimerStarted(false)\<close>.
\<close>

definition signal :: "bool \<Rightarrow> bool \<Rightarrow> app \<Rightarrow> app" where
  "signal isValid isFilled s =
     (if isValid then
        (if isFilled then
           s\<lparr>validationState := Some MSG_valid,
             alerts := alerts s @ [elapsed (config s)],
             timerStarted := False\<rparr>
         else s\<lparr>validationState := Some MSG_valid\<rparr>)
      else s\<lparr>validationState := Some MSG_error\<rparr>)"

text \<open>
  \<^verbatim>\<open>validate(c)\<close>, always called with the configuration the caller has just set, here
  the one of the state. \<open>validateBoard\<close> is its body from the clearing of the flags
  to the last verdict; \<open>validate\<close> adds the early return for the type \<^verbatim>\<open>'other'\<close>
  before it and the signals after it.
\<close>

definition validateBoard :: "config \<Rightarrow> heap \<Rightarrow> js_error + (bool \<times> bool \<times> heap)" where
  "validateBoard newConfig h =
     (let h0 = clearErrors (cells newConfig) h;
          ops = opsFor (type newConfig)
      in
      (case defaultValidate newConfig ops h0 of
         Inl e \<Rightarrow> Inl e
       | Inr st1 \<Rightarrow>
       (case (if type newConfig = TYPE_X then validateX newConfig st1 else Inr st1) of
          Inl e \<Rightarrow> Inl e
        | Inr st2 \<Rightarrow>
            (if type newConfig = TYPE_Samurai
             then validateSamurai newConfig ops [(0, 12), (6, 6), (12, 0), (12, 12)] st2
             else Inr st2))))"

definition validate :: "app \<Rightarrow> js_error + app" where
  "validate s =
     (let newConfig = config s in
      if type newConfig = TYPE_Other then Inr s
      else
        (case validateBoard newConfig (heap s) of
           Inl e \<Rightarrow> Inl e
         | Inr (isValid, isFilled, h) \<Rightarrow> Inr (signal isValid isFilled (s\<lparr>heap := h\<rparr>))))"

section \<open>Undo and redo log\<close>

definition addUndoFull :: "addr list list \<Rightarrow> addr list list \<Rightarrow> app \<Rightarrow> app" where
  "addUndoFull prevCells newCells s =
     (let newUndo = sliceTo (undoHistory s) (undoIndex s + 1) @ [Full prevCells newCells]
      in s\<lparr>undoHistory := newUndo, undoIndex := undoIndex s + 1\<rparr>)"

definition addUndoDiff :: "nat \<times> nat \<Rightarrow> string \<Rightarrow> string \<Rightarrow> app \<Rightarrow> app" where
  "addUndoDiff coords prevVal newVal s =
     (let newUndo = sliceTo (undoHistory s) (undoIndex s + 1) @ [Diff coords prevVal newVal]
      in s\<lparr>undoHistory := newUndo, undoIndex := undoIndex s + 1\<rparr>)"

definition resetUndo :: "app \<Rightarrow> app" where
  "resetUndo s = s\<lparr>undoHistory := [], undoIndex := - 1\<rparr>"

text \<open>
  \<^verbatim>\<open>cellOrDiv(r, c)\<close> picks the element that \<^verbatim>\<open>undo\<close> and \<^verbatim>\<open>redo\<close> focus. The element
  exists for every cell of the board, so only the reads of \<^verbatim>\<open>cellOrDiv\<close> can throw;
  \<open>True\<close> stands for \<^verbatim>\<open>'div'\<close>.
\<close>

definition cellOrDiv :: "app \<Rightarrow> nat \<Rightarrow> nat \<Rightarrow> js_error + bool" where
  "cellOrDiv s r c =
     (case cellAt (cells (config s)) r c of
        Inl e \<Rightarrow> Inl e
      | Inr a \<Rightarrow>
          let guessIndex = guess (heap s a) in
          if guessIndex \<noteq> - 1 \<and> currGuess s \<noteq> guessIndex then
            (case elemAtInt (guesses (config s)) guessIndex of
               None \<Rightarrow> Inl TypeError
             | Some g \<Rightarrow> Inr (\<not> editable g))
          else Inr False)"

text \<open>
  \<^verbatim>\<open>undo\<close>. A full record puts the rows of \<^verbatim>\<open>prevCells\<close> back as the board; a diff
  record writes \<^verbatim>\<open>prevVal\<close> into the cell object at the coordinates. The index is
  decremented last.
\<close>

definition undo :: "app \<Rightarrow> js_error + app" where
  "undo s =
     (if undoIndex s > - 1 then
        (case elemAtInt (undoHistory s) (undoIndex s) of
           None \<Rightarrow> Inl TypeError
         | Some (Full prevCells newCells) \<Rightarrow>
             bindE (validate (s\<lparr>config := (config s)\<lparr>cells := prevCells\<rparr>\<rparr>))
               (\<lambda>s'. Inr (s'\<lparr>undoIndex := undoIndex s - 1\<rparr>))
         | Some (Diff coords prevVal newVal) \<Rightarrow>
             (case coords of (r, c) \<Rightarrow>
              bindE (cellAt (cells (config s)) r c)
               (\<lambda>a. bindE (validate (s\<lparr>heap := (heap s)(a := (heap s a)\<lparr>val := prevVal\<rparr>)\<rparr>))
               (\<lambda>s'. bindE (cellOrDiv s' r c)
               (\<lambda>_. Inr (s'\<lparr>undoIndex := undoIndex s - 1\<rparr>))))))
      else Inr s)"

text \<open>\<^verbatim>\<open>redo\<close>. The index is advanced first.\<close>

definition redo :: "app \<Rightarrow> js_error + app" where
  "redo s =
     (if undoIndex s < int (length (undoHistory s)) - 1 then
        (let newUndoIndex = undoIndex s + 1 in
         case elemAtInt (undoHistory s) newUndoIndex of
           None \<Rightarrow> Inl TypeError
         | Some (Full prevCells newCells) \<Rightarrow>
             validate (s\<lparr>undoIndex := newUndoIndex,
                         config := (config s)\<lparr>cells := newCells\<rparr>\<rparr>)
         | Some (Diff coords prevVal newVal) \<Rightarrow>
             (case coords of (r, c) \<Rightarrow>
              bindE (cellAt (cells (config s)) r c)
               (\<lambda>a. bindE (validate (s\<lparr>undoIndex := newUndoIndex,
                                         heap := (heap s)(a := (heap s a)\<lparr>val := newVal\<rparr>)\<rparr>))
               (\<lambda>s'. bindE (cellOrDiv s' r c)
               (\<lambda>_. Inr s')))))
      else Inr s)"

text \<open>\<open>n\<close> calls of \<^verbatim>\<open>undo\<close> in a row.\<close>

fun undoTimes :: "nat \<Rightarrow> app \<Rightarrow> js_error + app" where
  "undoTimes 0 s = Inr s"
| "undoTimes (Suc n) s = bindE (undo s) (undoTimes n)"

section \<open>Edits\<close>

text \<open>
  \<^verbatim>\<open>diff(oldVal, newVal)\<close>. Strings are lists of characters; \<^verbatim>\<open>oldVal.includes(l)\<close> for
  a one-character \<open>l\<close> is membership. The result is a one-character string, or
  \<^verbatim>\<open>undefined\<close> (\<open>None\<close>) for an empty \<^verbatim>\<open>newVal\<close>.
\<close>

fun firstAbsent :: "string \<Rightarrow> string \<Rightarrow> char option" where
  "firstAbsent oldVal [] = None"
| "firstAbsent oldVal (l # rest) = (if l \<notin> set oldVal then Some l else firstAbsent oldVal rest)"

definition diff :: "string \<Rightarrow> string \<Rightarrow> string option" where
  "diff oldVal newVal =
     (case (if length newVal \<ge> length oldVal then firstAbsent oldVal newVal else None) of
        Some l \<Rightarrow> Some [l]
      | None \<Rightarrow> (if newVal = [] then None else Some [last newVal]))"

text \<open>\<^verbatim>\<open>val.split('').sort().join('')\<close>: the characters in the order of their codes.\<close>

definition sortChars :: "string \<Rightarrow> string" where
  "sortChars v = sort_key (of_char :: char \<Rightarrow> nat) v"

text \<open>
  \<^verbatim>\<open>cellValCallback(r, c, val)\<close>. \<^verbatim>\<open>diff\<close> is called for a \<^verbatim>\<open>val\<close> of two characters
  or more only, where its result is a string.
\<close>

definition cellValCallback :: "nat \<Rightarrow> nat \<Rightarrow> string \<Rightarrow> app \<Rightarrow> js_error + app" where
  "cellValCallback r c v s =
     (let s0 = (if \<not> timerStarted s \<and> currGuess s = 1 \<and> type (config s) \<noteq> TYPE_Other
                then s\<lparr>timerStarted := True\<rparr> else s)
      in
      bindE (cellAt (cells (config s)) r c) (\<lambda>a.
        let prevVal = val (heap s a);
            guess' = (if v = [] then - 1 else currGuess s)
        in
        bindE (if guess' \<noteq> - 1 then
                 (case elemAtInt (guesses (config s)) guess' of
                    None \<Rightarrow> Inl TypeError
                  | Some g \<Rightarrow> Inr (isSmall g))
               else Inr False) (\<lambda>small.
          let newVal = (if length v > 1 \<and> \<not> small
                        then (case diff prevVal v of Some l \<Rightarrow> l | None \<Rightarrow> v)
                        else if small then sortChars v else v);
              h' = (heap s)(a := (heap s a)\<lparr>val := newVal, guess := guess'\<rparr>)
          in validate (addUndoDiff (r, c) prevVal newVal (s0\<lparr>heap := h'\<rparr>)))))"

text \<open>
  \<^verbatim>\<open>JSON.parse(JSON.stringify(config.cells))\<close>: the fields of every cell are read, then
  a new object is made for each, row by row.
\<close>

fun parseRow :: "cell list \<Rightarrow> heap \<Rightarrow> addr \<Rightarrow> addr list \<times> heap \<times> addr" where
  "parseRow [] h n = ([], h, n)"
| "parseRow (x # xs) h n =
     (case parseRow xs (h(n := x)) (Suc n) of (as, h', n') \<Rightarrow> (n # as, h', n'))"

fun parseCells :: "cell list list \<Rightarrow> heap \<Rightarrow> addr \<Rightarrow> addr list list \<times> heap \<times> addr" where
  "parseCells [] h n = ([], h, n)"
| "parseCells (row # rows) h n =
     (case parseRow row h n of (as, h1, n1) \<Rightarrow>
      case parseCells rows h1 n1 of (ass, h2, n2) \<Rightarrow> (as # ass, h2, n2))"

definition jsonCopy :: "addr list list \<Rightarrow> heap \<Rightarrow> addr \<Rightarrow> addr list list \<times> heap \<times> addr" where
  "jsonCopy cs h n = parseCells (map (map h) cs) h n"

text \<open>\<^verbatim>\<open>clearGuess(i)\<close>: the bulk edit, recorded as a full record.\<close>

definition clearCell :: "int \<Rightarrow> heap \<Rightarrow> addr \<Rightarrow> heap" where
  "clearCell i h a = (if guess (h a) = i then h(a := (h a)\<lparr>val := [], guess := - 1\<rparr>) else h)"

definition clearGuess :: "int \<Rightarrow> app \<Rightarrow> js_error + app" where
  "clearGuess i s =
     (case jsonCopy (cells (config s)) (heap s) (nextAddr s) of (prevCells, h1, n1) \<Rightarrow>
      let h2 = foldl (clearCell i) h1 (concat (cells (config s)))
      in validate (addUndoFull prevCells (cells (config s)) (s\<lparr>heap := h2, nextAddr := n1\<rparr>)))"

text \<open>
  \<^verbatim>\<open>deleteGroup(i)\<close>, called with the index of a listed group. \<^verbatim>\<open>groups.splice(i, 1)\<close>
  removes nothing when \<open>i\<close> is past the end.
\<close>

definition shiftGroup :: "nat \<Rightarrow> heap \<Rightarrow> addr \<Rightarrow> heap" where
  "shiftGroup i h a =
     (if group (h a) \<ge> int i then h(a := (h a)\<lparr>group := max 0 (group (h a) - 1)\<rparr>) else h)"

definition deleteGroup :: "nat \<Rightarrow> app \<Rightarrow> app" where
  "deleteGroup i s =
     s\<lparr>config := (config s)\<lparr>groups := take i (groups (config s)) @ drop (Suc i) (groups (config s))\<rparr>,
       heap := foldl (shiftGroup i) (heap s) (concat (cells (config s)))\<rparr>"

section \<open>Schema migration\<close>

text \<open>
  \<^verbatim>\<open>upgrade(config)\<close> runs on the value of \<^verbatim>\<open>JSON.parse\<close>: a tree of fresh objects
  that nothing else refers to, so the model is a function on the tree. The fields that
  the steps test for absence are options (\<open>None\<close> is \<^verbatim>\<open>undefined\<close>). Two records
  cannot share field names, so the fields of the parsed objects carry a prefix:
  \<open>cellGuess\<close> is \<^verbatim>\<open>cell.guess\<close>, \<open>docType\<close> is \<^verbatim>\<open>config.type\<close>, and so on; the
  parameter \<^verbatim>\<open>config\<close> of \<^verbatim>\<open>upgrade\<close> is \<open>doc\<close>.
  The parsed document is taken to hold its \<^verbatim>\<open>cells\<close> and \<^verbatim>\<open>groups\<close> arrays;
  \<^verbatim>\<open>guesses\<close> may be missing, as it is in a file of version 1.0.
\<close>

record rawCell =
  cellVal :: string
  cellGuess :: "int option"
  isGuess :: "bool option"
  cellGroup :: int
  cellColor :: "string option"
  cellError :: bool

record rawGroup =
  rawGroupColor :: "string option"

record rawGuess =
  rawGuessColor :: "string option"
  rawIsSmall :: bool
  rawEditable :: "bool option"

record rawDoc =
  docVersion :: "rat option"
  docDimensions :: "nat \<times> nat"
  docCells :: "rawCell list list"
  docGroups :: "rawGroup list"
  docGuesses :: "rawGuess list option"
  docType :: "string option"
  docElapsed :: "nat option"

definition CURR_VER :: rat where
  "CURR_VER = 15 / 10"

text \<open>
  \<^verbatim>\<open>config.version || 1.0\<close>: a missing version and the version 0 count as 1.0.
  Versions are exact decimals in the model.
\<close>

definition versionOf :: "rawDoc \<Rightarrow> rat" where
  "versionOf doc = (case docVersion doc of None \<Rightarrow> 1 | Some v \<Rightarrow> if v = 0 then 1 else v)"

text \<open>The step for versions below 1.1: the guess flag becomes a guess index.\<close>

definition convertCell :: "rawCell \<Rightarrow> rawCell" where
  "convertCell cell =
     cell\<lparr>cellGuess := Some (if isGuess cell = Some True then 1 else 0), isGuess := None\<rparr>"

definition step11 :: "rawDoc \<Rightarrow> rawDoc" where
  "step11 doc =
     doc\<lparr>docCells := map (map convertCell) (docCells doc),
            docGuesses := Some
              [\<lparr>rawGuessColor = Some ''#ffffff'', rawIsSmall = False, rawEditable = Some False\<rparr>,
               \<lparr>rawGuessColor = Some ''#ff0000'', rawIsSmall = False, rawEditable = Some True\<rparr>]\<rparr>"

text \<open>
  The step for versions below 1.2. \<^verbatim>\<open>getColor\<close> asks the browser for the computed
  colour of an element and rewrites it with \<^verbatim>\<open>rgb2Hex\<close>; the browser is not part of
  the repository, so \<open>getColor\<close> is a parameter of the migration. Looping over a
  missing \<^verbatim>\<open>guesses\<close> throws.
\<close>

definition step12 :: "(string option \<Rightarrow> string option) \<Rightarrow> rawDoc \<Rightarrow> js_error + rawDoc" where
  "step12 getColor doc =
     (let groups' = map (\<lambda>g. g\<lparr>rawGroupColor := getColor (rawGroupColor g)\<rparr>) (docGroups doc)
      in case docGuesses doc of
           None \<Rightarrow> Inl TypeError
         | Some gs \<Rightarrow>
             Inr (doc\<lparr>docGroups := groups',
                        docGuesses := Some (map (\<lambda>g. g\<lparr>rawGuessColor := getColor (rawGuessColor g)\<rparr>) gs)\<rparr>))"

text \<open>The step for versions below 1.3: \<^verbatim>\<open>!config.type\<close> holds for a missing and for an empty type.\<close>

definition step13 :: "rawDoc \<Rightarrow> rawDoc" where
  "step13 doc =
     (if docType doc = None \<or> docType doc = Some [] then doc\<lparr>docType := Some ''default''\<rparr>
      else doc)"

text \<open>The step for versions below 1.4.\<close>

definition step14 :: "rawDoc \<Rightarrow> js_error + rawDoc" where
  "step14 doc =
     (case docGuesses doc of
        None \<Rightarrow> Inl TypeError
      | Some gs \<Rightarrow>
          Inr (doc\<lparr>docGuesses := Some (map (\<lambda>g. if rawEditable g = None
                                                    then g\<lparr>rawEditable := Some True\<rparr> else g) gs)\<rparr>))"

text \<open>
  The step for versions below 1.5: \<^verbatim>\<open>guesses.splice(2, 0, small)\<close> (at the end of a
  shorter list), the shift of the guess indices from 2 on, and the elapsed time.
\<close>

definition shiftCell :: "rawCell \<Rightarrow> rawCell" where
  "shiftCell cell =
     (case cellGuess cell of
        None \<Rightarrow> cell
      | Some g \<Rightarrow> if g \<ge> 2 then cell\<lparr>cellGuess := Some (g + 1)\<rparr> else cell)"

definition step15 :: "rawDoc \<Rightarrow> js_error + rawDoc" where
  "step15 doc =
     (case docGuesses doc of
        None \<Rightarrow> Inl TypeError
      | Some gs \<Rightarrow>
          Inr (doc\<lparr>docGuesses := Some (take 2 gs
                          @ [\<lparr>rawGuessColor = Some ''#ff0000'', rawIsSmall = True, rawEditable = Some True\<rparr>]
                          @ drop 2 gs),
                      docCells := map (map shiftCell) (docCells doc),
                      docElapsed := Some 0\<rparr>))"

text \<open>
  \<^verbatim>\<open>upgrade\<close>: every step tests the version read at the start (\<open>ver\<close> is the
  local \<^verbatim>\<open>version\<close>); the version is stamped at the end, whatever it was.
\<close>

definition upgrade :: "(string option \<Rightarrow> string option) \<Rightarrow> rawDoc \<Rightarrow> js_error + rawDoc" where
  "upgrade getColor doc =
     (let ver = versionOf doc;
          c1 = (if ver < 11 / 10 then step11 doc else doc)
      in
      bindE (if ver < 12 / 10 then step12 getColor c1 else Inr c1) (\<lambda>c2.
        let c3 = (if ver < 13 / 10 then step13 c2 else c2) in
        bindE (if ver < 14 / 10 then step14 c3 else Inr c3) (\<lambda>c4.
          bindE (if ver < 15 / 10 then step15 c4 else Inr c4) (\<lambda>c5.
            Inr (c5\<lparr>docVersion := Some CURR_VER\<rparr>)))))"

section \<open>Well-formed cells and example boards\<close>

text \<open>
  The invariant of the data model on a cell's guess index: -1 or an index of
  \<^verbatim>\<open>guesses\<close>.
\<close>

definition validGuess :: "guessStyle list \<Rightarrow> cell \<Rightarrow> bool" where
  "validGuess gs cell \<longleftrightarrow> guess cell = - 1 \<or> (0 \<le> guess cell \<and> guess cell < int (length gs))"

text \<open>The three guess styles of the initial state of the component, and an empty cell.\<close>

definition exGuesses :: "guessStyle list" where
  "exGuesses =
     [\<lparr>guessColor = ''#ffffff'', isSmall = False, editable = False\<rparr>,
      \<lparr>guessColor = ''#ff0000'', isSmall = False, editable = True\<rparr>,
      \<lparr>guessColor = ''#ff0000'', isSmall = True, editable = True\<rparr>]"

definition blank :: cell where
  "blank = \<lparr>val = [], guess = - 1, group = 0, color = None, error = False\<rparr>"

text \<open>Three cells showing 5: two normal guesses and a pencil mark between them.\<close>

definition exHeapC1 :: heap where
  "exHeapC1 = (\<lambda>_. blank)
     (0 := blank\<lparr>val := ''5'', guess := 1\<rparr>,
      1 := blank\<lparr>val := ''5'', guess := 2\<rparr>,
      2 := blank\<lparr>val := ''5'', guess := 1\<rparr>)"

text \<open>
  A file of version 1.0 with one guessed and one given cell, a browser that knows the
  colour name black, and the document the migration makes of the file.
\<close>

definition exDoc10 :: rawDoc where
  "exDoc10 =
     \<lparr>docVersion = Some 1, docDimensions = (1, 2),
      docCells = [[\<lparr>cellVal = ''5'', cellGuess = None, isGuess = Some True, cellGroup = 0,
                    cellColor = None, cellError = False\<rparr>,
                   \<lparr>cellVal = ''3'', cellGuess = None, isGuess = Some False, cellGroup = 0,
                    cellColor = None, cellError = False\<rparr>]],
      docGroups = [\<lparr>rawGroupColor = Some ''black''\<rparr>],
      docGuesses = None, docType = None, docElapsed = None\<rparr>"

definition exGetColor :: "string option \<Rightarrow> string option" where
  "exGetColor c = (if c = Some ''black'' then Some ''#000000'' else c)"

definition exDoc15 :: rawDoc where
  "exDoc15 =
     \<lparr>docVersion = Some (15 / 10), docDimensions = (1, 2),
      docCells = [[\<lparr>cellVal = ''5'', cellGuess = Some 1, isGuess = None, cellGroup = 0,
                    cellColor = None, cellError = False\<rparr>,
                   \<lparr>cellVal = ''3'', cellGuess = Some 0, isGuess = None, cellGroup = 0,
                    cellColor = None, cellError = False\<rparr>]],
      docGroups = [\<lparr>rawGroupColor = Some ''#000000''\<rparr>],
      docGuesses = Some
        [\<lparr>rawGuessColor = Some ''#ffffff'', rawIsSmall = False, rawEditable = Some False\<rparr>,
         \<lparr>rawGuessColor = Some ''#ff0000'', rawIsSmall = False, rawEditable = Some True\<rparr>,
         \<lparr>rawGuessColor = Some ''#ff0000'', rawIsSmall = True, rawEditable = Some True\<rparr>],
      docType = Some ''default'', docElapsed = Some 0\<rparr>"

section \<open>Properties of the board geometry\<close>

lemma getGroup_formula:
  assumes "0 < gH" "0 < gW"
  shows "getGroup r c gH gW (height, width) =
     Some (of_nat (c div gW) + (of_nat width / of_nat gW) * of_nat (r div gH))"
  using assms by (simp add: getGroup_def floor_divide_of_nat_eq)

lemma getGroup_dvd:
  assumes "0 < gH" "0 < gW" "gW dvd width"
  shows "getGroup r c gH gW (height, width) = Some (of_nat (c div gW + (width div gW) * (r div gH)))"
proof -
  have "(of_nat width :: rat) / of_nat gW = of_nat (width div gW)"
    using assms(3) by auto
  then show ?thesis using assms by (simp add: getGroup_formula)
qed

lemma idx_unique:
  fixes W :: nat
  assumes "c' < W"
  shows "c' + W * r' = g \<longleftrightarrow> r' = g div W \<and> c' = g mod W"
  using assms by auto

lemma div_eq_interval:
  fixes k :: nat
  assumes "0 < k"
  shows "r div k = q \<longleftrightarrow> q * k \<le> r \<and> r < q * k + k"
proof
  assume "r div k = q"
  then show "q * k \<le> r \<and> r < q * k + k"
    using assms dividend_less_div_times [of k r] div_times_less_eq_dividend [of r k]
    by (simp add: add.commute)
next
  assume "q * k \<le> r \<and> r < q * k + k"
  then show "r div k = q"
    by (intro div_nat_eqI) (simp_all add: mult.commute)
qed

lemma card_div_eq:
  fixes k :: nat
  assumes "0 < k" "q < n div k" "k dvd n"
  shows "card {r. r < n \<and> r div k = q} = k"
proof -
  have lt: "r < n" if "r div k = q" for r
    using that assms by (metis dvd_div_mult_self div_less_iff_less_mult)
  have "{r. r < n \<and> r div k = q} = {q * k ..< q * k + k}"
    using lt by (auto simp: div_eq_interval [OF assms(1)])
  then show ?thesis by simp
qed

lemma div_less_of_dvd:
  fixes k :: nat
  assumes "0 < k" "k dvd n" "r < n"
  shows "r div k < n div k"
  using assms by (metis dvd_div_mult_self div_less_iff_less_mult)

lemma fibre_eq:
  assumes "0 < gH" "0 < gW" "gH dvd height" "gW dvd width"
  shows "{(r, c). r < height \<and> c < width \<and> getGroup r c gH gW (height, width) = Some (of_nat g)}
       = {r. r < height \<and> r div gH = g div (width div gW)} \<times> {c. c < width \<and> c div gW = g mod (width div gW)}"
proof -
  have "c div gW + (width div gW) * (r div gH) = g \<longleftrightarrow>
          r div gH = g div (width div gW) \<and> c div gW = g mod (width div gW)"
    if "c < width" for r c
    using idx_unique [OF div_less_of_dvd [OF assms(2) assms(4) that]] .
  moreover have "getGroup r c gH gW (height, width) = Some (of_nat g)
      \<longleftrightarrow> c div gW + (width div gW) * (r div gH) = g" for r c
    by (simp only: getGroup_dvd [OF assms(1) assms(2) assms(4)] option.inject of_nat_eq_iff)
  ultimately show ?thesis
    by auto
qed

lemma fibre_card:
  assumes "0 < gH" "0 < gW" "gH dvd height" "gW dvd width"
    and "g < (height div gH) * (width div gW)"
  shows "card {(r, c). r < height \<and> c < width \<and> getGroup r c gH gW (height, width) = Some (of_nat g)}
       = gH * gW"
proof -
  have W: "0 < width div gW" using assms(5) by (cases "width div gW") auto
  have q: "g div (width div gW) < height div gH"
    using assms(5) W by (simp add: less_mult_imp_div_less)
  have p: "g mod (width div gW) < width div gW" using W by simp
  show ?thesis
    unfolding fibre_eq [OF assms(1-4)] card_cartesian_product
    using card_div_eq [OF assms(1) q assms(3)] card_div_eq [OF assms(2) p assms(4)]
    by simp
qed

lemma idx_bound:
  fixes W :: nat
  assumes "r' < H" "c' < W"
  shows "c' + W * r' < H * W"
proof -
  have "c' + W * r' < W * Suc r'" using assms(2) by simp
  also have "W * Suc r' \<le> W * H" using assms(1) by (intro mult_le_mono2) simp
  finally show ?thesis by (simp add: mult.commute)
qed

lemma image_eq:
  assumes "0 < gH" "0 < gW" "gH dvd height" "gW dvd width"
  shows "(\<lambda>(r, c). getGroup r c gH gW (height, width)) ` ({..<height} \<times> {..<width})
       = (\<lambda>g. Some (of_nat g)) ` {..<(height div gH) * (width div gW)}"
proof (intro equalityI subsetI)
  fix x :: "rat option" assume "x \<in> (\<lambda>(r, c). getGroup r c gH gW (height, width)) ` ({..<height} \<times> {..<width})"
  then obtain r c where rc: "r < height" "c < width"
    and x: "x = Some (of_nat (c div gW + (width div gW) * (r div gH)))"
    using assms by (auto simp: getGroup_dvd)
  have "r div gH < height div gH" "c div gW < width div gW"
    using div_less_of_dvd assms rc by auto
  then have "c div gW + (width div gW) * (r div gH) < (height div gH) * (width div gW)"
    by (rule idx_bound)
  then show "x \<in> (\<lambda>g. Some (of_nat g)) ` {..<(height div gH) * (width div gW)}"
    using x by blast
next
  fix x :: "rat option" assume "x \<in> (\<lambda>g. Some (of_nat g)) ` {..<(height div gH) * (width div gW)}"
  then obtain g where g: "g < (height div gH) * (width div gW)" and x: "x = Some (of_nat g)"
    by auto
  have "card {(r, c). r < height \<and> c < width \<and> getGroup r c gH gW (height, width) = Some (of_nat g)} \<noteq> 0"
    using fibre_card [OF assms g] assms by simp
  then have "{(r, c). r < height \<and> c < width \<and> getGroup r c gH gW (height, width) = Some (of_nat g)} \<noteq> {}"
    by (metis card.empty)
  then obtain r c where "r < height" "c < width" "getGroup r c gH gW (height, width) = Some (of_nat g)"
    by auto
  then show "x \<in> (\<lambda>(r, c). getGroup r c gH gW (height, width)) ` ({..<height} \<times> {..<width})"
    using x by force
qed

text \<open>
  Claim C3. For positive group dimensions \<^verbatim>\<open>getGroup\<close> returns
  \<open>\<lfloor>c / gWidth\<rfloor> + (width / gWidth) \<times> \<lfloor>r / gHeight\<rfloor>\<close>; and when the group height divides
  the height and the group width divides the width, the group indices of the
  \<open>height \<times> width\<close> cells are exactly the numbers below
  \<open>(height / gHeight) \<times> (width / gWidth)\<close>, and each of these groups holds exactly
  \<open>gHeight \<times> gWidth\<close> cells.
\<close>

theorem getGroup_partitions:
  assumes "0 < gH" and "0 < gW"
  shows "getGroup r c gH gW (height, width) =
           Some (of_nat (c div gW) + (of_nat width / of_nat gW) * of_nat (r div gH))
       \<and> (gH dvd height \<and> gW dvd width \<longrightarrow>
            (\<lambda>(r, c). getGroup r c gH gW (height, width)) ` ({..<height} \<times> {..<width})
               = (\<lambda>g. Some (of_nat g)) ` {..<(height div gH) * (width div gW)}
          \<and> (\<forall>g < (height div gH) * (width div gW).
               card {(r, c). r < height \<and> c < width
                       \<and> getGroup r c gH gW (height, width) = Some (of_nat g)} = gH * gW))"
  using getGroup_formula [OF assms] image_eq [OF assms] fibre_card [OF assms] by blast

text \<open>The 9 by 9 board with 3 by 3 boxes: the cell (4, 7) lies in box 5, a box of 9 cells.\<close>

theorem getGroup_partitions_witness:
  "getGroup 4 7 3 3 (9, 9) = Some 5
   \<and> card {(r, c). r < 9 \<and> c < 9 \<and> getGroup r c 3 3 (9, 9) = Some 5} = 9"
proof -
  have a: "(0::nat) < 3" by simp
  have d: "(3::nat) dvd 9" by simp
  have "(5::nat) < (9 div 3) * (9 div 3)" by simp
  with getGroup_partitions [OF a a, of 4 7 9 9] d
  have "getGroup 4 7 3 3 (9, 9) = Some (of_nat (7 div 3) + (of_nat 9 / of_nat 3) * of_nat (4 div 3))"
    and "card {(r, c). r < 9 \<and> c < 9 \<and> getGroup r c 3 3 (9, 9) = Some (of_nat 5)} = 3 * 3"
    by blast+
  then show ?thesis by simp
qed

section \<open>Properties of the uniqueness check\<close>

lemma isSmallGuess_valid:
  "validGuess gs cell \<Longrightarrow> \<exists>b. isSmallGuess gs cell = Inr b"
  by (auto simp: validGuess_def isSmallGuess_def elemAtInt_def)

lemma isSmallGuess_invalid:
  "\<not> validGuess gs cell \<Longrightarrow> isSmallGuess gs cell = Inl TypeError"
  by (auto simp: validGuess_def isSmallGuess_def elemAtInt_def)

lemma displayList_valid:
  "\<forall>c \<in> set cs. validGuess gs c \<Longrightarrow>
     displayList gs cs = Inr (map (\<lambda>c. if isSmallGuess gs c = Inr True then [] else val c) cs)"
proof (induction cs)
  case Nil
  then show ?case by simp
next
  case (Cons c cs)
  then obtain b where "isSmallGuess gs c = Inr b"
    using isSmallGuess_valid by fastforce
  with Cons show ?case by simp
qed

lemma displayList_length:
  "displayList gs cs = Inr vs \<Longrightarrow> length vs = length cs"
  by (induction cs arbitrary: vs) (auto split: sum.splits)

lemma setKeys_length [simp]: "length (setKeys vs) = length vs"
  by (simp add: setKeys_def entries_def)

lemma setKeys_nth:
  "i < length vs \<Longrightarrow> setKeys vs ! i = (if vs ! i \<noteq> [] then Inl (vs ! i) else Inr i)"
  by (simp add: setKeys_def entries_def)

lemma remdups_length_distinct:
  "length (remdups xs) = length xs \<longleftrightarrow> distinct xs"
  by (metis length_remdups_eq remdups_id_iff_distinct)

lemma isUnique_distinct:
  "(length (remdups (setKeys vs)) = length vs) = distinct (setKeys vs)"
  using remdups_length_distinct [of "setKeys vs"] by simp

lemma setKeys_distinct:
  "distinct (setKeys vs) \<longleftrightarrow>
     (\<forall>i<length vs. \<forall>j<length vs. i \<noteq> j \<and> vs ! i \<noteq> [] \<longrightarrow> vs ! i \<noteq> vs ! j)"
  unfolding distinct_conv_nth
  by (simp add: setKeys_nth) (metis)

lemma markErrors_apply:
  "markErrors as h x = (if x \<in> set as then (h x)\<lparr>error := True\<rparr> else h x)"
  unfolding markErrors_def
  by (induction as arbitrary: h) auto


lemma allUnique_result:
  assumes "\<forall>a \<in> set cellList. validGuess gs (h a)"
  shows "allUnique gs cellList h =
     (let u = (\<forall>i<length cellList. \<forall>j<length cellList.
                 i \<noteq> j \<and> isSmallGuess gs (h (cellList ! i)) = Inr False
                       \<and> isSmallGuess gs (h (cellList ! j)) = Inr False
                       \<and> val (h (cellList ! i)) \<noteq> []
                 \<longrightarrow> val (h (cellList ! i)) \<noteq> val (h (cellList ! j)))
      in Inr (u, if u then h else markErrors cellList h))"
proof -
  let ?vs = "map (\<lambda>c. if isSmallGuess gs c = Inr True then [] else val c) (map h cellList)"
  have dl: "displayList gs (map h cellList) = Inr ?vs"
    using assms by (intro displayList_valid) simp
  have small: "isSmallGuess gs (h a) = Inr False \<longleftrightarrow> isSmallGuess gs (h a) \<noteq> Inr True"
    if "a \<in> set cellList" for a
    using isSmallGuess_valid [of gs "h a"] assms that by auto
  have key: "distinct (setKeys ?vs) \<longleftrightarrow>
      (\<forall>i<length cellList. \<forall>j<length cellList.
                 i \<noteq> j \<and> isSmallGuess gs (h (cellList ! i)) = Inr False
                       \<and> isSmallGuess gs (h (cellList ! j)) = Inr False
                       \<and> val (h (cellList ! i)) \<noteq> []
                 \<longrightarrow> val (h (cellList ! i)) \<noteq> val (h (cellList ! j)))"
    unfolding setKeys_distinct
    apply (simp add: small)
    apply (intro iffI allI impI)
     apply (metis)
    apply (metis)
    done
  show ?thesis
    by (simp only: allUnique_def dl sum.case Let_def isUnique_distinct key)
qed

text \<open>
  Claim C1. Take any partition \<open>cellList\<close> that \<^verbatim>\<open>validate\<close> hands to \<^verbatim>\<open>allUnique\<close>,
  all of whose cells carry a guess index that is -1 or an index of \<^verbatim>\<open>guesses\<close>.
  \<^verbatim>\<open>allUnique\<close> returns, and it judges the partition unique if and only if no two
  different positions hold cells that are both not small guesses and show the same
  non-empty value: a small-guess cell conflicts with nothing, and empty cells do not
  conflict with each other. When the partition is not unique, every cell of it has its
  error flag set afterwards. No flag that was set is cleared, so a flag stays set
  through the checks that follow. A partition in which at most one cell is not a small
  guess is unique.
\<close>

theorem allUnique_wildcards:
  assumes "\<forall>a \<in> set cellList. validGuess gs (h a)"
  shows "\<exists>isUnique h'. allUnique gs cellList h = Inr (isUnique, h')
     \<and> (isUnique \<longleftrightarrow>
          (\<forall>i<length cellList. \<forall>j<length cellList.
             i \<noteq> j \<and> isSmallGuess gs (h (cellList ! i)) = Inr False
                   \<and> isSmallGuess gs (h (cellList ! j)) = Inr False
                   \<and> val (h (cellList ! i)) \<noteq> []
             \<longrightarrow> val (h (cellList ! i)) \<noteq> val (h (cellList ! j))))
     \<and> (\<not> isUnique \<longrightarrow> (\<forall>a \<in> set cellList. error (h' a)))
     \<and> (\<forall>a. error (h a) \<longrightarrow> error (h' a))
     \<and> ((\<forall>i<length cellList. \<forall>j<length cellList. i \<noteq> j \<longrightarrow>
             isSmallGuess gs (h (cellList ! i)) = Inr True
           \<or> isSmallGuess gs (h (cellList ! j)) = Inr True) \<longrightarrow> isUnique)"
  unfolding allUnique_result [OF assms] Let_def
  by (auto simp: markErrors_apply)

text \<open>
  Cells 0 and 2 are normal guesses showing 5, cell 1 is a small guess showing 5: the
  three together conflict and all get the flag, the small guess included; cells 0 and 1
  alone do not conflict.
\<close>

theorem allUnique_wildcards_witness:
  "validGuess exGuesses (exHeapC1 0) \<and> validGuess exGuesses (exHeapC1 1)
   \<and> validGuess exGuesses (exHeapC1 2)
   \<and> (\<exists>h'. allUnique exGuesses [0, 1, 2] exHeapC1 = Inr (False, h') \<and> error (h' 1))
   \<and> (\<exists>h'. allUnique exGuesses [0, 1] exHeapC1 = Inr (True, h'))"
proof -
  have v: "\<forall>a \<in> set [0, 1, 2]. validGuess exGuesses (exHeapC1 a)"
    by (simp add: validGuess_def exGuesses_def exHeapC1_def blank_def)
  have v2: "\<forall>a \<in> set [0, 1]. validGuess exGuesses (exHeapC1 a)"
    using v by simp
  have ev: "fst (projr (allUnique exGuesses [0, 1, 2] exHeapC1)) = False"
    by (simp add: allUnique_def isSmallGuess_def elemAtInt_def setKeys_def entries_def
        exGuesses_def exHeapC1_def blank_def)
  have ev2: "fst (projr (allUnique exGuesses [0, 1] exHeapC1)) = True"
    by (simp add: allUnique_def isSmallGuess_def elemAtInt_def setKeys_def entries_def
        exGuesses_def exHeapC1_def blank_def)
  from allUnique_wildcards [OF v] ev
  have a: "\<exists>h'. allUnique exGuesses [0, 1, 2] exHeapC1 = Inr (False, h') \<and> error (h' 1)"
    by auto
  from allUnique_wildcards [OF v2] ev2
  have b: "\<exists>h'. allUnique exGuesses [0, 1] exHeapC1 = Inr (True, h')"
    by auto
  from v a b show ?thesis by simp
qed

section \<open>Properties of the migration\<close>

lemma upgrade_stamps:
  "upgrade getColor doc = Inr doc' \<Longrightarrow> docVersion doc' = Some CURR_VER"
  by (auto simp: upgrade_def bindE_def Let_def split: sum.splits if_splits)

lemma upgrade_current:
  "docVersion doc = Some CURR_VER \<Longrightarrow> upgrade getColor doc = Inr doc"
  by (simp add: upgrade_def bindE_def versionOf_def CURR_VER_def)

text \<open>
  Claim C7. Migration is idempotent: whenever \<^verbatim>\<open>upgrade\<close> returns a document,
  upgrading that document again returns it unchanged, and when \<^verbatim>\<open>upgrade\<close> throws so
  does the double upgrade; and the upgrade of a document whose version is the current
  one, 1.5, returns the document itself, the version and every other field unchanged.
\<close>

theorem upgrade_idempotent:
  "(\<forall>doc'. upgrade getColor doc = Inr doc' \<longrightarrow> upgrade getColor doc' = Inr doc')
   \<and> bindE (upgrade getColor doc) (upgrade getColor) = upgrade getColor doc
   \<and> (docVersion doc = Some CURR_VER \<longrightarrow> upgrade getColor doc = Inr doc)"
proof -
  have a: "upgrade getColor doc' = Inr doc'" if "upgrade getColor doc = Inr doc'" for doc'
    using upgrade_current [OF upgrade_stamps [OF that]] .
  then have "bindE (upgrade getColor doc) (upgrade getColor) = upgrade getColor doc"
    by (cases "upgrade getColor doc") (simp_all add: bindE_def)
  with a upgrade_current show ?thesis by blast
qed

lemma ex_upgrade: "upgrade exGetColor exDoc10 = Inr exDoc15"
  by (simp add: upgrade_def bindE_def versionOf_def CURR_VER_def exDoc10_def exDoc15_def
      step11_def step12_def step13_def step14_def step15_def convertCell_def shiftCell_def
      exGetColor_def)

text \<open>The file of version 1.0 becomes the document of version 1.5, which stays as it is.\<close>

theorem upgrade_idempotent_witness:
  "upgrade exGetColor exDoc10 = Inr exDoc15 \<and> upgrade exGetColor exDoc15 = Inr exDoc15
   \<and> docVersion exDoc15 = Some CURR_VER"
  using upgrade_idempotent [of exGetColor exDoc10] upgrade_idempotent [of exGetColor exDoc15]
    ex_upgrade
  by (simp add: exDoc15_def CURR_VER_def)



end
